theory Spec2Isabelle
  imports Complex_Main
begin

section \<open>Numbers and exceptions\<close>

text \<open>
  The controller \<^verbatim>\<open>pmm_magaiba.py\<close> computes with two kinds of numbers: the binary floats
  of the indicator series (pandas) and \<^verbatim>\<open>decimal.Decimal\<close> for prices and amounts.
  Both have special values besides the finite ones: a float is finite, an infinity or NaN,
  and so is a Decimal. A finite value is modelled by the real number it denotes: rounding
  (to 53 bits for a float, to the context precision of 28 digits for a Decimal), signed
  zeros, overflow and signalling NaNs are outside the model.

  Every exception of the Python is a value of \<open>error\<close>. The first five are the
  exceptions the code can raise; the last three are the failure kinds of the
  specification's taxonomy, which let a statement say whether the code produces them.
\<close>

datatype error =
    TypeError | IndexError | KeyError | InvalidOperation | DivisionByZero
  | InsufficientHistory | InvalidIndicatorOutput | InvalidLadderConfig

text \<open>\<open>FInf True\<close> is \<open>+inf\<close>, \<open>FInf False\<close> is \<open>-inf\<close>; likewise \<open>DInf\<close>.\<close>

datatype pyfloat = Float real | FInf bool | FNaN

datatype decimal = Dec real | DInf bool | DNaN

definition and_then :: "error + 'a \<Rightarrow> ('a \<Rightarrow> error + 'b) \<Rightarrow> error + 'b" where
  "and_then m f = (case m of Inl e \<Rightarrow> Inl e | Inr x \<Rightarrow> f x)"

text \<open>A list comprehension whose element expression may raise: the first exception ends it.\<close>

fun for_each :: "('a \<Rightarrow> error + 'b) \<Rightarrow> 'a list \<Rightarrow> error + 'b list" where
  "for_each f [] = Inr []"
| "for_each f (x # xs) =
     and_then (f x) (\<lambda>y. and_then (for_each f xs) (\<lambda>ys. Inr (y # ys)))"


subsection \<open>Float arithmetic (numpy: no operation raises)\<close>

fun fadd :: "pyfloat \<Rightarrow> pyfloat \<Rightarrow> pyfloat" where
  "fadd FNaN _ = FNaN"
| "fadd _ FNaN = FNaN"
| "fadd (Float a) (Float b) = Float (a + b)"
| "fadd (Float _) (FInf s) = FInf s"
| "fadd (FInf s) (Float _) = FInf s"
| "fadd (FInf s) (FInf t) = (if s = t then FInf s else FNaN)"

fun fneg :: "pyfloat \<Rightarrow> pyfloat" where
  "fneg FNaN = FNaN"
| "fneg (Float a) = Float (- a)"
| "fneg (FInf s) = FInf (\<not> s)"

definition fsub :: "pyfloat \<Rightarrow> pyfloat \<Rightarrow> pyfloat" where
  "fsub x y = fadd x (fneg y)"

fun fmul :: "pyfloat \<Rightarrow> pyfloat \<Rightarrow> pyfloat" where
  "fmul FNaN _ = FNaN"
| "fmul _ FNaN = FNaN"
| "fmul (Float a) (Float b) = Float (a * b)"
| "fmul (Float a) (FInf s) = (if a = 0 then FNaN else FInf (s = (0 < a)))"
| "fmul (FInf s) (Float a) = (if a = 0 then FNaN else FInf (s = (0 < a)))"
| "fmul (FInf s) (FInf t) = FInf (s = t)"

fun fdiv :: "pyfloat \<Rightarrow> pyfloat \<Rightarrow> pyfloat" where
  "fdiv FNaN _ = FNaN"
| "fdiv _ FNaN = FNaN"
| "fdiv (Float a) (Float b) =
     (if b = 0 then (if a = 0 then FNaN else FInf (0 < a)) else Float (a / b))"
| "fdiv (Float _) (FInf _) = Float 0"
| "fdiv (FInf s) (Float b) = FInf (s = (0 \<le> b))"
| "fdiv (FInf _) (FInf _) = FNaN"

fun fsqrt :: "pyfloat \<Rightarrow> pyfloat" where
  "fsqrt FNaN = FNaN"
| "fsqrt (Float a) = (if a < 0 then FNaN else Float (sqrt a))"
| "fsqrt (FInf s) = (if s then FInf True else FNaN)"

text \<open>The comparison \<^verbatim>\<open>x > 0\<close>: false on NaN.\<close>

fun fgt0 :: "pyfloat \<Rightarrow> bool" where
  "fgt0 FNaN = False"
| "fgt0 (Float a) = (0 < a)"
| "fgt0 (FInf s) = s"

subsection \<open>Decimal arithmetic (default context: InvalidOperation and DivisionByZero are raised)\<close>

text \<open>\<^verbatim>\<open>Decimal(x)\<close> of a float is exact and keeps the special values.\<close>

fun Decimal :: "pyfloat \<Rightarrow> decimal" where
  "Decimal (Float a) = Dec a"
| "Decimal (FInf s) = DInf s"
| "Decimal FNaN = DNaN"

fun dadd :: "decimal \<Rightarrow> decimal \<Rightarrow> error + decimal" where
  "dadd DNaN _ = Inr DNaN"
| "dadd _ DNaN = Inr DNaN"
| "dadd (Dec a) (Dec b) = Inr (Dec (a + b))"
| "dadd (Dec _) (DInf s) = Inr (DInf s)"
| "dadd (DInf s) (Dec _) = Inr (DInf s)"
| "dadd (DInf s) (DInf t) = (if s = t then Inr (DInf s) else Inl InvalidOperation)"



fun dmul :: "decimal \<Rightarrow> decimal \<Rightarrow> error + decimal" where
  "dmul DNaN _ = Inr DNaN"
| "dmul _ DNaN = Inr DNaN"
| "dmul (Dec a) (Dec b) = Inr (Dec (a * b))"
| "dmul (Dec a) (DInf s) = (if a = 0 then Inl InvalidOperation else Inr (DInf (s = (0 < a))))"
| "dmul (DInf s) (Dec a) = (if a = 0 then Inl InvalidOperation else Inr (DInf (s = (0 < a))))"
| "dmul (DInf s) (DInf t) = Inr (DInf (s = t))"

fun ddiv :: "decimal \<Rightarrow> decimal \<Rightarrow> error + decimal" where
  "ddiv DNaN _ = Inr DNaN"
| "ddiv _ DNaN = Inr DNaN"
| "ddiv (Dec a) (Dec b) =
     (if b = 0 then (if a = 0 then Inl InvalidOperation else Inl DivisionByZero)
      else Inr (Dec (a / b)))"
| "ddiv (Dec _) (DInf _) = Inr (Dec 0)"
| "ddiv (DInf s) (Dec b) = Inr (DInf (s = (0 \<le> b)))"
| "ddiv (DInf _) (DInf _) = Inl InvalidOperation"

text \<open>The builtin \<^verbatim>\<open>sum\<close>: a left fold of \<^verbatim>\<open>+\<close> from 0.\<close>

fun py_sum_from :: "decimal \<Rightarrow> decimal list \<Rightarrow> error + decimal" where
  "py_sum_from acc [] = Inr acc"
| "py_sum_from acc (x # xs) = and_then (dadd acc x) (\<lambda>acc'. py_sum_from acc' xs)"

definition py_sum :: "decimal list \<Rightarrow> error + decimal" where
  "py_sum xs = py_sum_from (Dec 0) xs"

subsection \<open>Series (pandas)\<close>

text \<open>
  A series is the list of its values, indexed from 0. A binary operation on two series
  aligns them on the index: where one series has no value the result is NaN.
  \<^verbatim>\<open>mean()\<close> and \<^verbatim>\<open>std()\<close> skip NaN values; \<^verbatim>\<open>std()\<close> is the sample deviation
  (divisor \<open>count - 1\<close>) and is NaN on fewer than two values. \<^verbatim>\<open>iloc[-1]\<close> raises
  IndexError on an empty series.
\<close>

fun series_op :: "(pyfloat \<Rightarrow> pyfloat \<Rightarrow> pyfloat) \<Rightarrow> pyfloat list \<Rightarrow> pyfloat list \<Rightarrow> pyfloat list" where
  "series_op f [] [] = []"
| "series_op f (x # xs) [] = FNaN # series_op f xs []"
| "series_op f [] (y # ys) = FNaN # series_op f [] ys"
| "series_op f (x # xs) (y # ys) = f x y # series_op f xs ys"

primrec fsum :: "pyfloat list \<Rightarrow> pyfloat" where
  "fsum [] = Float 0"
| "fsum (x # xs) = fadd x (fsum xs)"

definition notna :: "pyfloat list \<Rightarrow> pyfloat list" where
  "notna xs = filter (\<lambda>x. x \<noteq> FNaN) xs"

definition series_mean :: "pyfloat list \<Rightarrow> pyfloat" where
  "series_mean xs =
     (let vs = notna xs in
      if vs = [] then FNaN else fdiv (fsum vs) (Float (real (length vs))))"

definition series_std :: "pyfloat list \<Rightarrow> pyfloat" where
  "series_std xs =
     (let vs = notna xs; count = length vs in
      if count \<le> 1 then FNaN
      else
        let avg = fdiv (fsum vs) (Float (real count));
            sqr = fsum (map (\<lambda>x. fmul (fsub avg x) (fsub avg x)) vs)
        in fsqrt (fdiv sqr (Float (real (count - 1)))))"

definition iloc_last :: "'a list \<Rightarrow> error + 'a" where
  "iloc_last xs = (if xs = [] then Inl IndexError else Inr (last xs))"

section \<open>The data of the controller\<close>

datatype TradeType = BUY | SELL

datatype PriceType = MidPrice | BestBid | BestAsk | LastTrade

record TrailingStop =
  activation_price :: decimal
  trailing_delta :: decimal

record DCAExecutorConfig =
  timestamp :: real
  level_id :: string
  connector_name :: string
  trading_pair :: string
  prices :: "decimal list"
  amounts_quote :: "decimal list"
  leverage :: int
  side :: TradeType
  time_limit :: "int option"
  stop_loss :: decimal
  trailing_stop :: "TrailingStop option"
  activation_bounds :: "decimal list option"

record CandlesConfig =
  connector :: string
  trading_pair :: string
  interval :: string
  max_records :: int

text \<open>
  The configuration: the fields of \<^verbatim>\<open>PMMMagaibaControllerConfig\<close> and those of its base
  class that the controller reads (\<^verbatim>\<open>connector_name\<close>, \<^verbatim>\<open>trading_pair\<close>, \<^verbatim>\<open>leverage\<close>,
  \<^verbatim>\<open>time_limit\<close>, \<^verbatim>\<open>stop_loss\<close>, \<^verbatim>\<open>trailing_stop\<close>).
\<close>

record PMMMagaibaControllerConfig =
  connector_name :: string
  trading_pair :: string
  leverage :: int
  time_limit :: "int option"
  stop_loss :: decimal
  trailing_stop :: "TrailingStop option"
  candles_config :: "CandlesConfig list"
  buy_spreads :: "real list"
  sell_spreads :: "real list"
  candles_connector :: string
  candles_trading_pair :: string
  interval :: string
  macd_fast :: int
  macd_slow :: int
  macd_signal :: int
  natr_length :: int
  dca_levels :: int
  dca_spread_scalar :: decimal
  dca_amount_ratio_increment :: real
  executor_activation_bounds :: "decimal list option"

record PMMMagaibaController =
  config :: PMMMagaibaControllerConfig
  max_records :: int
  dca_amounts_pct :: "decimal list"
  processed_data :: "string \<rightharpoonup> decimal"

text \<open>A row of the candles frame.\<close>

record candle =
  high :: pyfloat
  low :: pyfloat
  close :: pyfloat

text \<open>
  The two external collaborators of \<^verbatim>\<open>update_processed_data\<close> are parameters of the
  model. The market data provider answers the candle query and the price query. The
  indicator library computes NATR and MACD; either call returns \<^verbatim>\<open>None\<close> when it declines
  its input, and the MACD frame has the columns \<^verbatim>\<open>MACD\<close>, \<^verbatim>\<open>MACDh\<close> and \<^verbatim>\<open>MACDs\<close>
  (the controller selects them by the names built from the three lengths).
\<close>

record market_data_provider =
  get_candles_df :: "string \<Rightarrow> string \<Rightarrow> string \<Rightarrow> int \<Rightarrow> candle list"
  get_price_by_type :: "string \<Rightarrow> string \<Rightarrow> PriceType \<Rightarrow> decimal"

record macd_frame =
  MACD :: "pyfloat list"
  MACDh :: "pyfloat list"
  MACDs :: "pyfloat list"

record ta =
  natr :: "pyfloat list \<Rightarrow> pyfloat list \<Rightarrow> pyfloat list \<Rightarrow> int \<Rightarrow> pyfloat list option"
  macd :: "pyfloat list \<Rightarrow> int \<Rightarrow> int \<Rightarrow> int \<Rightarrow> macd_frame option"

section \<open>Construction\<close>

text \<open>
  Modelled from the spec: \<^verbatim>\<open>Distributions.geometric\<close> is a helper of the hummingbot
  library and not part of this repository's sources. The specification describes its
  result as the geometric progression with the given first term and ratio, one value per
  level, which is what this definition computes (as Decimals).
\<close>

definition geometric :: "int \<Rightarrow> real \<Rightarrow> real \<Rightarrow> decimal list" where
  "geometric n_levels start ratio = map (\<lambda>i. Dec (start * ratio ^ i)) [0..<nat n_levels]"

text \<open>
  \<^verbatim>\<open>PMMMagaibaController.__init__\<close>. The base class constructor, which runs last, leaves
  the fields set here as they are and starts with an empty \<^verbatim>\<open>processed_data\<close>.
\<close>

definition init :: "PMMMagaibaControllerConfig \<Rightarrow> error + PMMMagaibaController" where
  "init cfg =
     (let records = max (max (max (macd_slow cfg) (macd_fast cfg)) (macd_signal cfg))
                        (natr_length cfg) + 10;
          amounts_distributed = geometric (dca_levels cfg) 1 (dca_amount_ratio_increment cfg)
      in and_then
           (for_each (\<lambda>amount. and_then (py_sum amounts_distributed) (\<lambda>total. ddiv amount total))
              amounts_distributed)
           (\<lambda>pcts. Inr \<lparr>
              config =
                (if length (candles_config cfg) = 0
                 then cfg\<lparr>candles_config :=
                        [\<lparr>connector = candles_connector cfg,
                          CandlesConfig.trading_pair = candles_trading_pair cfg,
                          CandlesConfig.interval = PMMMagaibaControllerConfig.interval cfg,
                          CandlesConfig.max_records = records\<rparr>]\<rparr>
                 else cfg),
              max_records = records,
              dca_amounts_pct = pcts,
              processed_data = Map.empty\<rparr>))"

section \<open>Signal processing\<close>

text \<open>The z-score of the MACD line, sign inverted (line 146).\<close>

definition macd_signal_series :: "pyfloat list \<Rightarrow> pyfloat list" where
  "macd_signal_series m =
     map (\<lambda>x. fdiv (fneg (fsub x (series_mean m))) (series_std m)) m"

text \<open>The direction of the MACD histogram (line 148).\<close>

definition macdh_signal_series :: "pyfloat list \<Rightarrow> int list" where
  "macdh_signal_series h = map (\<lambda>x. if fgt0 x then 1 else - 1) h"

text \<open>The local \<^verbatim>\<open>price_multiplier\<close> (lines 146 to 150), from the three series.\<close>

definition price_multiplier :: "pyfloat list \<Rightarrow> pyfloat list \<Rightarrow> pyfloat list \<Rightarrow> error + decimal" where
  "price_multiplier natr_s macd_s macdh_s =
     (let macd_signal_s = macd_signal_series macd_s;
          macdh_signal_s = macdh_signal_series macdh_s;
          max_price_shift = map (\<lambda>x. fdiv x (Float 2)) natr_s;
          blended = series_op fadd
                      (map (\<lambda>x. fmul (Float 0.5) x) macd_signal_s)
                      (map (\<lambda>i. fmul (Float 0.5) (Float (of_int i))) macdh_signal_s)
      in and_then (iloc_last (series_op fmul blended max_price_shift))
           (\<lambda>v. Inr (Decimal v)))"

definition update_processed_data ::
  "ta \<Rightarrow> market_data_provider \<Rightarrow> PMMMagaibaController \<Rightarrow> error + PMMMagaibaController" where
  "update_processed_data lib provider self =
     (let cfg = config self;
          candles = get_candles_df provider (candles_connector cfg) (candles_trading_pair cfg)
                      (PMMMagaibaControllerConfig.interval cfg) (max_records self)
      in case natr lib (map high candles) (map low candles) (map close candles) (natr_length cfg) of
           None \<Rightarrow> Inl TypeError
         | Some natr_pct \<Rightarrow>
             let natr_s = map (\<lambda>x. fdiv x (Float 100)) natr_pct in
             (case macd lib (map close candles) (macd_fast cfg) (macd_slow cfg) (macd_signal cfg) of
                None \<Rightarrow> Inl TypeError
              | Some macd_output \<Rightarrow>
                  and_then (price_multiplier natr_s (MACD macd_output) (MACDh macd_output))
                    (\<lambda>pm.
                  and_then (iloc_last natr_s)
                    (\<lambda>v. let spread_multiplier = Decimal v;
                             mid_price = get_price_by_type provider (connector_name cfg)
                                           (trading_pair cfg) MidPrice
                         in and_then (dadd (Dec 1) pm)
                              (\<lambda>t. and_then (dmul mid_price t)
                                (\<lambda>reference_price.
                                   Inr (self\<lparr>processed_data :=
                                          [''reference_price'' \<mapsto> reference_price,
                                           ''spread_multiplier'' \<mapsto> spread_multiplier]\<rparr>)))))))"

section \<open>Ladder generation\<close>



section \<open>The specification's formulas\<close>


text \<open>The geometric progression with first term 1, normalised by its sum.\<close>

definition spec_weights :: "nat \<Rightarrow> real \<Rightarrow> real list" where
  "spec_weights level_count ratio =
     map (\<lambda>i. ratio ^ i / sum_list (map (\<lambda>j. ratio ^ j) [0..<level_count])) [0..<level_count]"












section \<open>Concrete inputs\<close>

text \<open>The configuration with the defaults of the source.\<close>

definition example_config :: PMMMagaibaControllerConfig where
  "example_config = \<lparr>
     connector_name = ''binance'', trading_pair = ''BTC-USDT'', leverage = 20,
     time_limit = Some 2700, stop_loss = Dec (3 / 100), trailing_stop = None,
     candles_config = [], buy_spreads = [1, 2, 4], sell_spreads = [1, 2, 4],
     candles_connector = ''binance'', candles_trading_pair = ''BTC-USDT'',
     interval = ''3m'', macd_fast = 12, macd_slow = 26, macd_signal = 9, natr_length = 14,
     dca_levels = 5, dca_spread_scalar = Dec 2, dca_amount_ratio_increment = 3 / 2,
     executor_activation_bounds = None\<rparr>"

text \<open>
  A controller with three equally weighted levels, as constructed from the defaults with
  \<open>dca_levels = 3\<close> and a ratio of 1, after a cycle that found a reference price of 100
  and a spread multiplier of 1 percent.
\<close>

definition example_controller :: PMMMagaibaController where
  "example_controller = \<lparr>
     config = example_config\<lparr>dca_levels := 3, dca_amount_ratio_increment := 1,
       candles_config := [\<lparr>connector = ''binance'', CandlesConfig.trading_pair = ''BTC-USDT'',
         CandlesConfig.interval = ''3m'', CandlesConfig.max_records = 36\<rparr>]\<rparr>,
     max_records = 36,
     dca_amounts_pct = [Dec (1 / 3), Dec (1 / 3), Dec (1 / 3)],
     processed_data = [''reference_price'' \<mapsto> Dec 100, ''spread_multiplier'' \<mapsto> Dec (1 / 100)]\<rparr>"



text \<open>A provider with a fixed candle history and mid price; an indicator library with fixed outputs.\<close>

definition fixed_provider :: "candle list \<Rightarrow> decimal \<Rightarrow> market_data_provider" where
  "fixed_provider cs mid =
     \<lparr>get_candles_df = (\<lambda>_ _ _ _. cs), get_price_by_type = (\<lambda>_ _ _. mid)\<rparr>"

definition fixed_ta :: "pyfloat list option \<Rightarrow> macd_frame option \<Rightarrow> ta" where
  "fixed_ta n m = \<lparr>natr = (\<lambda>_ _ _ _. n), macd = (\<lambda>_ _ _ _. m)\<rparr>"

definition three_candles :: "candle list" where
  "three_candles =
     [\<lparr>high = Float 101, low = Float 99, close = Float 100\<rparr>,
      \<lparr>high = Float 102, low = Float 100, close = Float 101\<rparr>,
      \<lparr>high = Float 103, low = Float 101, close = Float 102\<rparr>]"


definition frame :: "pyfloat list \<Rightarrow> pyfloat list \<Rightarrow> macd_frame" where
  "frame m h = \<lparr>MACD = m, MACDh = h, MACDs = series_op fsub m h\<rparr>"

section \<open>Properties\<close>

subsection \<open>Sequencing and finite arithmetic\<close>

lemma and_then_Inr [simp]: "and_then (Inr x) f = f x"
  by (simp add: and_then_def)

lemma and_then_Inl [simp]: "and_then (Inl e) f = Inl e"
  by (simp add: and_then_def)

lemma for_each_map:
  "(\<And>x. x \<in> set xs \<Longrightarrow> f x = Inr (g x)) \<Longrightarrow> for_each f xs = Inr (map g xs)"
  by (induction xs) simp_all





subsection \<open>The ladder of \<open>get_executor_config\<close>\<close>




subsection \<open>Which exceptions the ladder can raise\<close>

lemma and_then_error:
  "and_then m f = Inl e \<Longrightarrow> m = Inl e \<or> (\<exists>x. m = Inr x \<and> f x = Inl e)"
  by (cases m) simp_all


lemma dadd_error: "dadd x y = Inl e \<Longrightarrow> e = InvalidOperation"
  by (cases x; cases y) (auto split: if_splits)

lemma dmul_error: "dmul x y = Inl e \<Longrightarrow> e = InvalidOperation"
  by (cases x; cases y) (auto split: if_splits)






subsection \<open>Order of the prices\<close>






subsection \<open>The invariant of the emitted levels\<close>




subsection \<open>Determinism and frame\<close>



subsection \<open>The weights\<close>

lemma py_sum_from_finite:
  "py_sum_from (Dec acc) (map Dec xs) = Inr (Dec (acc + sum_list xs))"
  by (induction xs arbitrary: acc) (simp_all add: add.assoc)

lemma py_sum_finite: "py_sum (map Dec xs) = Inr (Dec (sum_list xs))"
  by (simp add: py_sum_def py_sum_from_finite)

lemma geometric_finite:
  "geometric n 1 r = map Dec (map (\<lambda>i. r ^ i) [0..<nat n])"
  by (simp add: geometric_def comp_def)

lemma powers_sum_pos:
  fixes r :: real
  assumes "0 < r" "0 < n"
  shows "0 < sum_list (map (\<lambda>i. r ^ i) [0..<n])"
proof -
  have "sum_list (map (\<lambda>i. r ^ i) [0..<n]) = (\<Sum>i = 0..<n. r ^ i)"
    by (simp add: interv_sum_list_conv_sum_set_nat)
  also have "0 < \<dots>"
    using assms by (intro sum_pos) simp_all
  finally show ?thesis .
qed


lemma init_finite:
  assumes "1 \<le> dca_levels cfg" "0 < dca_amount_ratio_increment cfg"
  shows "\<exists>self. init cfg = Inr self
    \<and> max_records self
        = max (max (max (macd_slow cfg) (macd_fast cfg)) (macd_signal cfg)) (natr_length cfg) + 10
    \<and> dca_amounts_pct self
        = map Dec (spec_weights (nat (dca_levels cfg)) (dca_amount_ratio_increment cfg))"
proof -
  let ?n = "nat (dca_levels cfg)" and ?r = "dca_amount_ratio_increment cfg"
  let ?g = "map (\<lambda>i. ?r ^ i) [0..<?n]"
  have pos: "0 < sum_list ?g"
    using assms by (intro powers_sum_pos) simp_all
  have "for_each (\<lambda>amount. and_then (py_sum (map Dec ?g)) (\<lambda>total. ddiv amount total)) (map Dec ?g)
      = Inr (map (\<lambda>d. case d of Dec x \<Rightarrow> Dec (x / sum_list ?g) | _ \<Rightarrow> d) (map Dec ?g))"
    using pos by (intro for_each_map) (auto simp: py_sum_finite simp del: map_map)
  also have "map (\<lambda>d. case d of Dec x \<Rightarrow> Dec (x / sum_list ?g) | _ \<Rightarrow> d) (map Dec ?g)
      = map Dec (spec_weights ?n ?r)"
    by (simp add: spec_weights_def comp_def)
  finally show ?thesis
    by (simp add: init_def Let_def geometric_finite del: map_map)
qed


lemma init_example:
  "init (example_config\<lparr>dca_levels := 3, dca_amount_ratio_increment := 1\<rparr>)
     = Inr (example_controller\<lparr>processed_data := Map.empty\<rparr>)"
  by (simp add: init_def example_controller_def example_config_def geometric_def py_sum_def
      upt_rec)


subsection \<open>The signal\<close>

lemma and_then_result:
  "and_then m f = Inr y \<Longrightarrow> \<exists>x. m = Inr x \<and> f x = Inr y"
  by (cases m) simp_all




lemma iloc_last_error: "iloc_last xs = Inl e \<Longrightarrow> e = IndexError"
  by (simp add: iloc_last_def split: if_splits)

lemma price_multiplier_error: "price_multiplier n m h = Inl e \<Longrightarrow> e = IndexError"
  unfolding price_multiplier_def Let_def
  by (auto dest!: and_then_error dest: iloc_last_error)

lemma update_processed_data_error:
  "update_processed_data lib provider self = Inl e
     \<Longrightarrow> e = TypeError \<or> e = IndexError \<or> e = InvalidOperation"
  unfolding update_processed_data_def Let_def
  by (auto dest!: and_then_error dest: iloc_last_error price_multiplier_error dadd_error dmul_error
      split: option.splits)





subsection \<open>A MACD line without variation\<close>




















subsection \<open>Failures of the signal computation\<close>

text \<open>
  C4 (as amended). \<open>update_processed_data\<close> never fails with InsufficientHistory, whatever
  the number of candles: it does not look at it. The number
  \<open>max(macd_slow, macd_fast, macd_signal, natr_length) + 10\<close> is only \<open>max_records\<close>, the
  number of candles the controller asks the provider for.
\<close>

theorem no_insufficient_history:
  "update_processed_data lib provider self \<noteq> Inl InsufficientHistory
   \<and> (init cfg = Inr ctl \<longrightarrow>
        max_records ctl
          = max (max (max (macd_slow cfg) (macd_fast cfg)) (macd_signal cfg)) (natr_length cfg) + 10)"
proof
  show "update_processed_data lib provider self \<noteq> Inl InsufficientHistory"
    using update_processed_data_error [of lib provider self InsufficientHistory] by auto
  show "init cfg = Inr ctl \<longrightarrow>
        max_records ctl
          = max (max (max (macd_slow cfg) (macd_fast cfg)) (macd_signal cfg)) (natr_length cfg) + 10"
    unfolding init_def Let_def by (auto dest!: and_then_result)
qed

theorem no_insufficient_history_witness:
  "update_processed_data (fixed_ta None None) (fixed_provider [] (Dec 100)) example_controller
     \<noteq> Inl InsufficientHistory
   \<and> (\<exists>ctl. init example_config = Inr ctl \<and> max_records ctl = 36)"
proof -
  obtain ctl where ctl: "init example_config = Inr ctl"
    using init_finite [of example_config] by (auto simp: example_config_def)
  from no_insufficient_history [of "fixed_ta None None" "fixed_provider [] (Dec 100)"
      example_controller example_config ctl] ctl
  show ?thesis by (auto simp: example_config_def)
qed

text \<open>
  C4 as stated fails: with 3 candles, far below the 36 of the defaults, indicator series
  of undefined values are processed without any exception (the stored values are NaN),
  and indicators that return nothing lead to a TypeError.
\<close>

theorem short_history_counterexample:
  "int (length three_candles)
     < max (max (max (macd_slow example_config) (macd_fast example_config))
              (macd_signal example_config)) (natr_length example_config) + 10
   \<and> update_processed_data
       (fixed_ta (Some [FNaN, FNaN, FNaN]) (Some (frame [FNaN, FNaN, FNaN] [FNaN, FNaN, FNaN])))
       (fixed_provider three_candles (Dec 100)) example_controller
     = Inr (example_controller\<lparr>processed_data :=
         [''reference_price'' \<mapsto> DNaN, ''spread_multiplier'' \<mapsto> DNaN]\<rparr>)
   \<and> update_processed_data (fixed_ta None None) (fixed_provider [] (Dec 100)) example_controller
     = Inl TypeError"
  by (simp add: three_candles_def example_config_def update_processed_data_def fixed_ta_def
      fixed_provider_def frame_def price_multiplier_def macd_signal_series_def
      macdh_signal_series_def series_std_def series_mean_def notna_def fsub_def iloc_last_def)




end
